theory Spec2Isabelle
  imports Main "HOL-Library.Word"
begin

section \<open>The DNS resolver plugin (src/plugins/dns-operation/dnsResolver.js)\<close>

text \<open>
  A shallow embedding of the class \<open>DNSResolver\<close>: its constructor, \<open>lazyInit\<close>,
  \<open>RethinkModule\<close>, \<open>determineDohResolvers\<close>, \<open>resolveDns\<close>, \<open>decodeResponse\<close>,
  \<open>resolveDnsUpstream\<close> and \<open>doh2\<close>.

  The modules the file imports (\<open>commons/util.js\<close>, \<open>commons/envutil.js\<close>,
  \<open>commons/dnsutil.js\<close>, \<open>commons/bufutil.js\<close>, \<open>core/node/util.js\<close>,
  \<open>core/node/dns-transport.js\<close>) and the platform (\<open>URL\<close>, \<open>fetch\<close>, \<open>http2\<close>) are
  collaborators whose code is not part of the plugin. What they compute is a field of the
  record \<open>env\<close>, so that every theorem holds for all of their behaviours; the few helpers
  whose result a statement depends on are defined from the specification and say so.
  Calls of the logger (\<open>this.log\<close>) have no effect on any result and are left out.
\<close>

subsection \<open>Values\<close>

type_synonym bytes = "8 word list"

type_synonym headers = "(string \<times> string) list"

text \<open>
  What a promise is rejected with, or what a \<open>throw\<close> raises: an \<open>Error\<close> with its
  message, a \<open>TypeError\<close>, the bare message string that \<open>doh2\<close> passes to \<open>reject\<close>, the
  \<open>AggregateError\<close> of \<open>Promise.any\<close> with the reasons of all its promises in their order,
  and a failure that a collaborator reports.
\<close>

datatype reason =
    Error string
  | TypeError string
  | Message string
  | AggregateError "reason list"
  | Upstream string

text \<open>A promise: fulfilled with a value, rejected with a reason, or never settled.\<close>

datatype 'a outcome = Fulfilled 'a | Rejected reason | Pending

text \<open>
  A \<open>Request\<close> (the incoming one, and the one built for an upstream) and a \<open>Response\<close>.
  A response is held with its body read; \<open>ok\<close> is the status range of the Fetch standard.
\<close>

record request =
  url :: string
  req_method :: string
  req_headers :: headers
  req_body :: bytes

record response =
  status :: nat
  statusText :: string
  res_headers :: headers
  body :: bytes

definition ok :: "response \<Rightarrow> bool" where
  "ok r = (200 \<le> status r \<and> status r \<le> 299)"

text \<open>\<open>new Response(buf)\<close>: status 200, no status text, no headers.\<close>

definition Response :: "bytes \<Rightarrow> response" where
  "Response buf = \<lparr>status = 200, statusText = [], res_headers = [], body = buf\<rparr>"

text \<open>A parsed \<open>URL\<close>, with the components the resolver reads and overrides.\<close>

record URL =
  protocol :: string
  hostname :: string
  port :: string
  pathname :: string
  search :: string

definition origin :: "URL \<Rightarrow> string" where
  "origin u = protocol u @ ''//'' @ hostname u @ (if port u = [] then [] else '':'' @ port u)"

definition href :: "URL \<Rightarrow> string" where
  "href u = origin u @ pathname u @ search u"

text \<open>
  The value \<open>determineDohResolvers\<close> returns and \<open>resolveDnsUpstream\<close> receives as
  \<open>resolverUrls\<close>: JavaScript does not type it, and the code returns an array on three
  of its paths and a string on the fourth. \<open>for (const rurl of resolverUrls)\<close> runs over
  the elements of an array and over the characters of a string.
\<close>

datatype resolvers = UrlArray "string list" | UrlString string

fun elements :: "resolvers \<Rightarrow> string list" where
  "elements (UrlArray xs) = xs"
| "elements (UrlString s) = map (\<lambda>c. [c]) s"

text \<open>The plain DNS transport object: \<open>new Transport(ip, 53)\<close>.\<close>

record transport_obj =
  ip :: string
  tport :: nat

subsection \<open>The collaborators\<close>

record env =
  isNode :: bool
  isWorkers :: bool
  dohResolver :: string
  secondaryDohResolver :: string
  dnsIpv4 :: string
  import_http2 :: bool
  import_nodeUtil :: bool
  import_transport :: bool
  emptyString :: "string \<Rightarrow> bool"
  emptyArrayOfString :: "string \<Rightarrow> bool"
  isGetRequest :: "request \<Rightarrow> bool"
  isPostRequest :: "request \<Rightarrow> bool"
  parseURL :: "string \<Rightarrow> URL option"
  set_hostname :: "string \<Rightarrow> URL \<Rightarrow> URL"
  set_pathname :: "string \<Rightarrow> URL \<Rightarrow> URL"
  set_port :: "string \<Rightarrow> URL \<Rightarrow> URL"
  set_protocol :: "string \<Rightarrow> URL \<Rightarrow> URL"
  set_search :: "string \<Rightarrow> URL \<Rightarrow> URL"
  bytesToBase64Url :: "bytes \<Rightarrow> string"
  dnsHeaders :: headers
  udpquery :: "transport_obj \<Rightarrow> bytes \<Rightarrow> bytes option outcome"
  tcpquery :: "transport_obj \<Rightarrow> bytes \<Rightarrow> bytes option outcome"
  truncated :: "bytes \<Rightarrow> bool"
  decode :: "bytes \<Rightarrow> reason + string"
  transformPseudoHeaders :: "headers \<Rightarrow> nat \<times> string \<times> headers"
  close_throws :: bool

text \<open>
  \<open>isNode\<close>, \<open>isWorkers\<close>, \<open>dohResolver\<close>, \<open>secondaryDohResolver\<close>: \<open>envutil\<close>.
  \<open>import_*\<close>: whether the dynamic \<open>import\<close> (and, for the transport, the constructor)
  succeeds. \<open>emptyString\<close>, \<open>isGetRequest\<close>, \<open>isPostRequest\<close>: \<open>util\<close>.
  \<open>parseURL\<close>: \<open>new URL(s)\<close>, which throws a \<open>TypeError\<close> where this is \<open>None\<close>.
  \<open>set_hostname\<close>, \<open>set_pathname\<close>, \<open>set_port\<close>, \<open>set_protocol\<close>, \<open>set_search\<close>: the
  setters of a \<open>URL\<close> (\<open>u.port = v\<close>), which normalise what they are given: a port that
  is the default of the scheme is dropped, a value that is not valid is ignored.
  \<open>udpquery\<close>, \<open>tcpquery\<close>: the methods of the transport; they answer with a buffer or
  with nothing (\<open>null\<close>), fail, or never answer. \<open>truncated\<close>, \<open>decode\<close>, \<open>dnsIpv4\<close>:
  \<open>dnsutil\<close>. \<open>transformPseudoHeaders\<close>: \<open>core/node/util.js\<close>, giving the status,
  status text and headers of the \<open>Response\<close> built from them. \<open>close_throws\<close>: whether
  \<open>close\<close>, called on an HTTP/2 session, raises.
\<close>

text \<open>
  Modelled from the spec: \<open>util.emptyArray\<close> is not part of the plugin. "An empty set
  signals: use plain DNS", so an array is empty when it has no element; what the helper
  answers for a string is left to the environment.
\<close>

fun emptyArray :: "env \<Rightarrow> resolvers \<Rightarrow> bool" where
  "emptyArray e (UrlArray xs) = (xs = [])"
| "emptyArray e (UrlString s) = emptyArrayOfString e s"

text \<open>
  Modelled from the spec: \<open>util.respond503\<close> is not part of the plugin. It is the
  "service unavailable" outcome, "mapped to an HTTP-like 503 status".
\<close>

definition respond503 :: response where
  "respond503 = \<lparr>status = 503, statusText = ''Service Unavailable'', res_headers = [], body = []\<rparr>"

subsection \<open>The resolver object\<close>

record resolver =
  http2 :: "unit option"
  nodeUtil :: "unit option"
  transport :: "transport_obj option"
  preferredDohResolvers :: "string list"

text \<open>The constructor.\<close>

definition constructor :: "env \<Rightarrow> resolver" where
  "constructor e =
     \<lparr>http2 = None, nodeUtil = None, transport = None,
      preferredDohResolvers = [dohResolver e, secondaryDohResolver e]\<rparr>"

text \<open>
  \<open>lazyInit\<close> assigns the three fields one after the other. An \<open>import\<close> that fails
  rejects the call there, and the fields assigned before it stay assigned: the result is
  the reason, if any, and the resolver as the call leaves it.
\<close>

definition lazyInit :: "env \<Rightarrow> resolver \<Rightarrow> reason option \<times> resolver" where
  "lazyInit e r0 =
     (if isNode e \<and> http2 r0 = None \<and> \<not> import_http2 e
      then (Some (Upstream ''import http2''), r0)
      else
        let r1 = (if isNode e \<and> http2 r0 = None then r0\<lparr>http2 := Some ()\<rparr> else r0) in
        if isNode e \<and> nodeUtil r1 = None \<and> \<not> import_nodeUtil e
        then (Some (Upstream ''import node/util''), r1)
        else
          let r2 = (if isNode e \<and> nodeUtil r1 = None then r1\<lparr>nodeUtil := Some ()\<rparr> else r1) in
          if isNode e \<and> transport r2 = None \<and> \<not> import_transport e
          then (Some (Upstream ''import node/dns-transport''), r2)
          else
            (None,
             if isNode e \<and> transport r2 = None
             then r2\<lparr>transport := Some \<lparr>ip = dnsIpv4 e, tport = 53\<rparr>\<rparr>
             else r2))"

subsection \<open>The upstream selector\<close>

text \<open>The part of \<open>param\<close> that the resolver reads.\<close>

record param =
  p_request :: request
  requestBodyBuffer :: bytes
  userDnsResolverUrl :: string

definition determineDohResolvers :: "env \<Rightarrow> resolver \<Rightarrow> param \<Rightarrow> resolvers" where
  "determineDohResolvers e r p =
     (if transport r \<noteq> None then UrlArray []
      else if \<not> emptyString e (userDnsResolverUrl p) then UrlArray [userDnsResolverUrl p]
      else if isWorkers e then UrlArray (preferredDohResolvers r)
      else UrlString (dohResolver e))"

subsection \<open>The calls the resolver makes\<close>

text \<open>
  Every call that leaves the resolver is recorded, in the order in which it is made: the
  two transport queries with the bytes sent, an upstream attempt with the request it
  carries and the client it goes through, and the reads of a response with the call of
  the DNS codec.
\<close>

datatype call =
    UdpQuery bytes
  | TcpQuery bytes
  | FetchCall request
  | Doh2Call request
  | ReadText
  | ReadArrayBuffer
  | DecodeCall bytes

subsection \<open>The race\<close>

text \<open>
  \<open>Promise.any\<close> over the promises \<open>promisedRes\<close>. Its state is the \<open>errors\<close> list of
  the language standard, one place per promise, filled when that promise is rejected. The
  schedule lists the settlements in the order in which they happen, each with the index
  of its promise in \<open>promisedRes\<close> and with the reason (\<open>Inl\<close>) or the value (\<open>Inr\<close>).
  The first fulfilment resolves the race; a rejection that fills the last empty place
  rejects it with the \<open>AggregateError\<close> of all reasons; a settlement of a promise that is
  not in the race, or that has settled before, does nothing; a race whose promises do
  not all settle stays pending.
\<close>

type_synonym schedule = "(nat \<times> (reason + response)) list"

fun Promise_any :: "reason option list \<Rightarrow> schedule \<Rightarrow> response outcome" where
  "Promise_any errors [] =
     (if list_all (\<lambda>x. x \<noteq> None) errors then Rejected (AggregateError (map the errors))
      else Pending)"
| "Promise_any errors ((i, s) # rest) =
     (if list_all (\<lambda>x. x \<noteq> None) errors then Rejected (AggregateError (map the errors))
      else if length errors \<le> i \<or> errors ! i \<noteq> None then Promise_any errors rest
      else case s of
          Inr v \<Rightarrow> Fulfilled v
        | Inl x \<Rightarrow> Promise_any (errors[i := Some x]) rest)"

subsection \<open>resolveDnsUpstream\<close>

text \<open>Decimal digits of a number, as \<open>String(n)\<close> and string concatenation print it.\<close>

fun decimal :: "nat \<Rightarrow> string" where
  "decimal n =
     (if n < 10 then [''0123456789'' ! n]
      else decimal (n div 10) @ [''0123456789'' ! (n mod 10)])"

declare decimal.simps [simp del]

text \<open>
  Modelled from the spec: \<open>util.contentLengthHeader\<close> and \<open>util.concatHeaders\<close> are not
  part of the plugin. A POST carries "\<open>content-length: {len(query)}\<close> and DNS-media-type
  headers".
\<close>

definition contentLengthHeader :: "bytes \<Rightarrow> headers" where
  "contentLengthHeader query = [(''content-length'', decimal (length query))]"

definition concatHeaders :: "headers \<Rightarrow> headers \<Rightarrow> headers" where
  "concatHeaders a b = a @ b"

text \<open>\<open>this.http2 ? this.doh2(rxid, dnsreq) : fetch(dnsreq)\<close>\<close>

definition attempt :: "resolver \<Rightarrow> request \<Rightarrow> call" where
  "attempt r dnsreq = (if http2 r \<noteq> None then Doh2Call dnsreq else FetchCall dnsreq)"

text \<open>
  The \<open>for\<close> loop over the resolver URLs. \<open>sent\<close> holds the attempts pushed to
  \<open>promisedRes\<close> so far, after the rejected promise it starts with. The URL of an
  attempt is the URL of the request after the four assignments of the source, in their
  order (hostname, pathname, port, protocol), each through the setter of the platform. The result is the
  reason with which the loop leaves the function early, if it does (a \<open>TypeError\<close> of
  \<open>new URL\<close>, or the rejection of a method that is neither GET nor POST), and the
  attempts made until then.
\<close>

fun dispatch ::
  "env \<Rightarrow> resolver \<Rightarrow> request \<Rightarrow> bytes \<Rightarrow> string list \<Rightarrow> call list \<Rightarrow> reason option \<times> call list"
where
  "dispatch e r rq query [] sent = (None, sent)"
| "dispatch e r rq query (rurl # rest) sent =
     (if emptyString e rurl then dispatch e r rq query rest sent
      else case parseURL e (url rq) of
          None \<Rightarrow> (Some (TypeError ''Invalid URL''), sent)
        | Some u0 \<Rightarrow>
            (case parseURL e rurl of
              None \<Rightarrow> (Some (TypeError ''Invalid URL''), sent)
            | Some upstream \<Rightarrow>
                let u1 = set_hostname e (hostname upstream) u0;
                    u2 = set_pathname e (pathname upstream) u1;
                    u3 = set_port e (port upstream) u2;
                    u = set_protocol e (protocol upstream) u3
                in
                  if isGetRequest e rq then
                    dispatch e r rq query rest
                      (sent @ [attempt r
                         \<lparr>url = href (set_search e (''?dns='' @ bytesToBase64Url e query) u),
                          req_method = ''GET'', req_headers = [], req_body = []\<rparr>])
                  else if isPostRequest e rq then
                    dispatch e r rq query rest
                      (sent @ [attempt r
                         \<lparr>url = href u, req_method = ''POST'',
                          req_headers = concatHeaders (contentLengthHeader query) (dnsHeaders e),
                          req_body = query\<rparr>])
                  else (Some (Error ''get/post requests only''), sent)))"

text \<open>\<open>ans ? new Response(bufutil.arrayBufferOf(ans)) : util.respond503()\<close>\<close>

definition respond :: "bytes option \<Rightarrow> response" where
  "respond ans = (case ans of Some a \<Rightarrow> Response a | None \<Rightarrow> respond503)"

text \<open>
  The plain path: \<open>bufutil.bufferOf\<close> and \<open>bufutil.arrayBufferOf\<close> change the view of
  the bytes and not the bytes. Without a transport object, \<open>this.transport.udpquery\<close>
  throws a \<open>TypeError\<close>; the text of its message is the engine's and stands here for
  what is read of \<open>null\<close>.
\<close>

definition plainOldDns :: "env \<Rightarrow> resolver \<Rightarrow> bytes \<Rightarrow> response outcome \<times> call list" where
  "plainOldDns e r query =
     (case transport r of
        None \<Rightarrow> (Rejected (TypeError ''this.transport is null''), [])
      | Some t \<Rightarrow>
          let q = query in
          (case udpquery e t q of
             Pending \<Rightarrow> (Pending, [UdpQuery q])
           | Rejected x \<Rightarrow> (Rejected x, [UdpQuery q])
           | Fulfilled ans \<Rightarrow>
               if ans \<noteq> None \<and> truncated e (the ans) then
                 (case tcpquery e t q of
                    Pending \<Rightarrow> (Pending, [UdpQuery q, TcpQuery q])
                  | Rejected x \<Rightarrow> (Rejected x, [UdpQuery q, TcpQuery q])
                  | Fulfilled ans' \<Rightarrow> (Fulfilled (respond ans'), [UdpQuery q, TcpQuery q]))
               else (Fulfilled (respond ans), [UdpQuery q])))"

text \<open>
  \<open>resolveDnsUpstream\<close>: the plain path for an empty \<open>resolverUrls\<close>, otherwise the
  loop and the race. \<open>promisedRes\<close> starts with \<open>Promise.reject(new Error("no
  upstream"))\<close>, a promise that is rejected when it is made: the race starts with its
  reason in place 0 of \<open>errors\<close>, and the attempts have the places from 1 on.
\<close>

definition resolveDnsUpstream ::
  "env \<Rightarrow> resolver \<Rightarrow> request \<Rightarrow> resolvers \<Rightarrow> bytes \<Rightarrow> schedule \<Rightarrow> response outcome \<times> call list"
where
  "resolveDnsUpstream e r rq resolverUrls query sched =
     (if emptyArray e resolverUrls then plainOldDns e r query
      else case dispatch e r rq query (elements resolverUrls) [] of
          (Some x, sent) \<Rightarrow> (Rejected x, sent)
        | (None, sent) \<Rightarrow>
            (Promise_any (Some (Error ''no upstream'') # replicate (length sent) None) sched,
             sent))"

subsection \<open>decodeResponse, resolveDns, RethinkModule\<close>

record decoded =
  dnsPacket :: string
  dnsBuffer :: bytes

definition decodeResponse :: "env \<Rightarrow> response option \<Rightarrow> (reason + decoded) \<times> call list" where
  "decodeResponse e resp =
     (case resp of
        None \<Rightarrow> (Inl (Error ''no upstream result''), [])
      | Some r \<Rightarrow>
          if \<not> ok r
          then (Inl (Error (decimal (status r) @ '' http err: '' @ statusText r)), [ReadText])
          else
            let buf = body r in
            (case decode e buf of
               Inl x \<Rightarrow> (Inl x, [ReadArrayBuffer, DecodeCall buf])
             | Inr pkt \<Rightarrow>
                 (Inr \<lparr>dnsPacket = pkt, dnsBuffer = buf\<rparr>,
                  [ReadArrayBuffer, DecodeCall buf])))"

definition resolveDns :: "env \<Rightarrow> resolver \<Rightarrow> param \<Rightarrow> schedule \<Rightarrow> decoded outcome \<times> call list" where
  "resolveDns e r p sched =
     (let upstreams = determineDohResolvers e r p in
      case resolveDnsUpstream e r (p_request p) upstreams (requestBodyBuffer p) sched of
        (Pending, cs) \<Rightarrow> (Pending, cs)
      | (Rejected x, cs) \<Rightarrow> (Rejected x, cs)
      | (Fulfilled upRes, cs) \<Rightarrow>
          (case decodeResponse e (Some upRes) of
             (Inl x, cs') \<Rightarrow> (Rejected x, cs @ cs')
           | (Inr d, cs') \<Rightarrow> (Fulfilled d, cs @ cs')))"

text \<open>
  The envelope of \<open>util.emptyResponse\<close> with its \<open>data\<close> set, or of \<open>util.errResponse\<close>.
\<close>

datatype envelope = Data decoded | Exception string reason

text \<open>
  \<open>RethinkModule\<close> awaits \<open>lazyInit\<close> outside its \<open>try\<close>, so a failed initialisation
  rejects the call; a failed resolution is caught and returned in the envelope. The
  result is the outcome, the resolver as the call leaves it, and the calls made.
\<close>

definition RethinkModule ::
  "env \<Rightarrow> resolver \<Rightarrow> param \<Rightarrow> schedule \<Rightarrow> envelope outcome \<times> resolver \<times> call list"
where
  "RethinkModule e r p sched =
     (case lazyInit e r of
        (Some x, r') \<Rightarrow> (Rejected x, r', [])
      | (None, r') \<Rightarrow>
          (case resolveDns e r' p sched of
             (Pending, cs) \<Rightarrow> (Pending, r', cs)
           | (Rejected x, cs) \<Rightarrow> (Fulfilled (Exception ''dnsResolver'' x), r', cs)
           | (Fulfilled d, cs) \<Rightarrow> (Fulfilled (Data d), r', cs)))"

text \<open>
  The resolver object lives on between the requests: \<open>serve\<close> is the resolver after
  the calls of \<open>RethinkModule\<close> for a list of requests, each with the schedule of its
  attempts.
\<close>

fun serve :: "env \<Rightarrow> resolver \<Rightarrow> (param \<times> schedule) list \<Rightarrow> resolver" where
  "serve e r [] = r"
| "serve e r (ps # rest) = serve e (fst (snd (RethinkModule e r (fst ps) (snd ps)))) rest"

subsection \<open>doh2: one exchange over an HTTP/2 session\<close>

text \<open>
  The promise executor of \<open>doh2\<close> runs to its end without interruption: it opens the
  session \<open>c\<close> and the stream \<open>req\<close>, registers handlers and writes the query. The
  events of the session and the stream arrive afterwards, one at a time, and run the
  handlers that are registered by then. The state holds the handlers registered on the
  session and on the stream, one closure (the response headers and the array \<open>b\<close>) for
  every run of the response handler, the calls made on the session and the stream in
  their order, whether the session is closed, and the promise.
\<close>

datatype hname = OnResponse | OnData | OnEnd | OnError

datatype h2call =
    Connect string
  | ConnOn hname
  | StreamRequest string string headers
  | StreamOn hname
  | StreamEnd bytes
  | ConnClose

datatype h2event =
    ConnErrorEv string
  | ResponseEv headers
  | DataEv bytes
  | EndEv
  | StreamErrorEv string

record h2 =
  conn_on :: "hname list"
  stream_on :: "hname list"
  closures :: "(headers \<times> bytes list) list"
  calls :: "h2call list"
  closed :: bool
  settled :: "response outcome"

definition h2_init :: h2 where
  "h2_init = \<lparr>conn_on = [], stream_on = [], closures = [], calls = [], closed = False,
              settled = Pending\<rparr>"

text \<open>\<open>resolve\<close> and \<open>reject\<close> of the promise: the first call settles it.\<close>

definition resolve :: "response \<Rightarrow> h2 \<Rightarrow> h2" where
  "resolve v st = (if settled st = Pending then st\<lparr>settled := Fulfilled v\<rparr> else st)"

definition reject :: "reason \<Rightarrow> h2 \<Rightarrow> h2" where
  "reject x st = (if settled st = Pending then st\<lparr>settled := Rejected x\<rparr> else st)"

text \<open>The calls of the executor.\<close>

definition connect :: "string \<Rightarrow> h2 \<Rightarrow> h2" where
  "connect authority st = st\<lparr>calls := calls st @ [Connect authority]\<rparr>"

definition c_on :: "hname \<Rightarrow> h2 \<Rightarrow> h2" where
  "c_on h st = st\<lparr>conn_on := conn_on st @ [h], calls := calls st @ [ConnOn h]\<rparr>"

definition c_request :: "string \<Rightarrow> string \<Rightarrow> headers \<Rightarrow> h2 \<Rightarrow> h2" where
  "c_request m path hs st = st\<lparr>calls := calls st @ [StreamRequest m path hs]\<rparr>"

definition req_on :: "hname \<Rightarrow> h2 \<Rightarrow> h2" where
  "req_on h st = st\<lparr>stream_on := stream_on st @ [h], calls := calls st @ [StreamOn h]\<rparr>"

definition req_end :: "bytes \<Rightarrow> h2 \<Rightarrow> h2" where
  "req_end q st = st\<lparr>calls := calls st @ [StreamEnd q]\<rparr>"

text \<open>
  \<open>close\<close> is a method of the session: it starts by reading the state of its receiver
  \<open>this\<close>. \<open>bound\<close> says whether the function runs on the session (\<open>c.close()\<close>) or
  as a plain function with no receiver, as it does when the value \<open>c.close\<close> is handed
  to another function and called there. Without its receiver it raises a \<open>TypeError\<close>
  at that first read and does nothing to the session; on the session it raises or it
  closes the session. The result is the exception, if any, and the state after the call;
  \<open>ConnClose\<close> records that the function has run.
\<close>

definition c_close :: "env \<Rightarrow> bool \<Rightarrow> h2 \<Rightarrow> reason option \<times> h2" where
  "c_close e bound st =
     (if \<not> bound then
        (Some (TypeError ''this is undefined''), st\<lparr>calls := calls st @ [ConnClose]\<rparr>)
      else if close_throws e then
        (Some (Upstream ''close''), st\<lparr>calls := calls st @ [ConnClose]\<rparr>)
      else (None, st\<lparr>calls := calls st @ [ConnClose], closed := True\<rparr>))"

text \<open>
  Modelled from the spec: \<open>util.safeBox\<close> is not part of the plugin. It runs the function
  it is given, and "closure failures are swallowed": an exception of the function is
  dropped. It is given the function alone (\<open>util.safeBox(c.close)\<close>, not the session),
  so the function runs without the session as its receiver.
\<close>

definition safeBox :: "(bool \<Rightarrow> h2 \<Rightarrow> reason option \<times> h2) \<Rightarrow> h2 \<Rightarrow> h2" where
  "safeBox f st = snd (f False st)"

text \<open>\<open>new Response(rb, h)\<close>\<close>

definition Response_init :: "bytes \<Rightarrow> nat \<times> string \<times> headers \<Rightarrow> response" where
  "Response_init rb h =
     \<lparr>status = fst h, statusText = fst (snd h), res_headers = snd (snd h), body = rb\<rparr>"

text \<open>The handler of \<open>end\<close>, for the closure with the headers \<open>hs\<close> and the array \<open>b\<close>.\<close>

definition on_end :: "env \<Rightarrow> headers \<times> bytes list \<Rightarrow> h2 \<Rightarrow> h2" where
  "on_end e cl st =
     (let rb = concat (snd cl);
          h = transformPseudoHeaders e (fst cl)
      in resolve (Response_init rb h) (safeBox (c_close e) st))"

text \<open>
  The handler of \<open>response\<close> registers the handlers of \<open>data\<close> and \<open>end\<close> over a new
  array \<open>b\<close>.
\<close>

definition on_response :: "headers \<Rightarrow> h2 \<Rightarrow> h2" where
  "on_response hs st = req_on OnEnd (req_on OnData (st\<lparr>closures := closures st @ [(hs, [])]\<rparr>))"

text \<open>One event: it runs the handlers registered for it, in the order of registration.\<close>

fun emit :: "env \<Rightarrow> h2 \<Rightarrow> h2event \<Rightarrow> h2" where
  "emit e st (ConnErrorEv m) = (if OnError \<in> set (conn_on st) then reject (Message m) st else st)"
| "emit e st (StreamErrorEv m) =
     (if OnError \<in> set (stream_on st) then reject (Message m) st else st)"
| "emit e st (ResponseEv hs) =
     (if OnResponse \<in> set (stream_on st) then on_response hs st else st)"
| "emit e st (DataEv chunk) =
     st\<lparr>closures := map (\<lambda>cl. (fst cl, snd cl @ [chunk])) (closures st)\<rparr>"
| "emit e st EndEv = foldl (\<lambda>s cl. on_end e cl s) st (closures st)"

text \<open>The executor, from \<open>http2.connect\<close> to \<open>req.end(upstreamQuery)\<close>.\<close>

definition executor :: "URL \<Rightarrow> request \<Rightarrow> bytes \<Rightarrow> headers \<Rightarrow> h2" where
  "executor u rq upstreamQuery hs =
     req_end upstreamQuery
       (req_on OnError
         (req_on OnResponse
           (c_request (req_method rq) (pathname u) hs
             (c_on OnError
               (connect (origin u) h2_init)))))"

text \<open>
  \<open>doh2\<close>, with the events that follow the executor. \<open>request.arrayBuffer()\<close> is the
  body of the request and \<open>util.copyHeaders\<close> its headers.
\<close>

definition doh2 :: "env \<Rightarrow> resolver \<Rightarrow> request \<Rightarrow> h2event list \<Rightarrow> h2" where
  "doh2 e r rq evs =
     (if http2 r = None \<or> nodeUtil r = None
      then h2_init\<lparr>settled := Rejected (Error ''h2 / node-util not setup, bailing'')\<rparr>
      else case parseURL e (url rq) of
          None \<Rightarrow> h2_init\<lparr>settled := Rejected (TypeError ''Invalid URL'')\<rparr>
        | Some u \<Rightarrow> foldl (emit e) (executor u rq (req_body rq) (req_headers rq)) evs)"

subsection \<open>Concrete environments and inputs\<close>

text \<open>
  Inputs on which the theorems below are evaluated. \<open>ex_parse\<close> knows three URLs and
  rejects everything else, as \<open>new URL\<close> rejects a string that is not an absolute URL.
\<close>

definition ex_parse :: "string \<Rightarrow> URL option" where
  "ex_parse s =
     (if s = ''https://front.test/'' then
        Some \<lparr>protocol = ''https:'', hostname = ''front.test'', port = [], pathname = ''/'',
              search = []\<rparr>
      else if s = ''https://a.test/dns-query'' then
        Some \<lparr>protocol = ''https:'', hostname = ''a.test'', port = [],
              pathname = ''/dns-query'', search = []\<rparr>
      else if s = ''https://b.test/dns-query'' then
        Some \<lparr>protocol = ''https:'', hostname = ''b.test'', port = [],
              pathname = ''/dns-query'', search = []\<rparr>
      else None)"

text \<open>
  The setters of the port and the protocol of a \<open>URL\<close>, for the schemes \<open>http:\<close> and
  \<open>https:\<close>: a port that is the default of the scheme is held as the empty string.
\<close>

definition ex_default_port :: "string \<Rightarrow> string" where
  "ex_default_port scheme =
     (if scheme = ''https:'' then ''443'' else if scheme = ''http:'' then ''80'' else [])"

definition ex_set_port :: "string \<Rightarrow> URL \<Rightarrow> URL" where
  "ex_set_port v u = u\<lparr>port := (if v = ex_default_port (protocol u) then [] else v)\<rparr>"

definition ex_set_protocol :: "string \<Rightarrow> URL \<Rightarrow> URL" where
  "ex_set_protocol v u =
     u\<lparr>protocol := v, port := (if port u = ex_default_port v then [] else port u)\<rparr>"

text \<open>
  An environment that is neither Node nor Workers. Its transport answers a UDP query
  with a truncated message (the TC flag is bit 1 of the third byte) and a TCP query with
  nothing. Its \<open>bytesToBase64Url\<close> is a stand-in that prints the length of the bytes:
  no statement below reads the query string of a GET.
\<close>

definition ex_env :: env where
  "ex_env =
     \<lparr>isNode = False, isWorkers = False,
      dohResolver = ''https://a.test/dns-query'',
      secondaryDohResolver = ''https://b.test/dns-query'',
      dnsIpv4 = ''1.1.1.1'',
      import_http2 = True, import_nodeUtil = True, import_transport = True,
      emptyString = (\<lambda>s. s = []),
      emptyArrayOfString = (\<lambda>s. s = []),
      isGetRequest = (\<lambda>rq. req_method rq = ''GET''),
      isPostRequest = (\<lambda>rq. req_method rq = ''POST''),
      parseURL = ex_parse,
      set_hostname = (\<lambda>v u. u\<lparr>hostname := v\<rparr>),
      set_pathname = (\<lambda>v u. u\<lparr>pathname := v\<rparr>),
      set_port = ex_set_port,
      set_protocol = ex_set_protocol,
      set_search = (\<lambda>v u. u\<lparr>search := v\<rparr>),
      bytesToBase64Url = (\<lambda>b. ''q'' @ decimal (length b)),
      dnsHeaders = [(''accept'', ''application/dns-message''),
                    (''content-type'', ''application/dns-message'')],
      udpquery = (\<lambda>t q. Fulfilled (Some [0, 1, 2, 0])),
      tcpquery = (\<lambda>t q. Fulfilled None),
      truncated = (\<lambda>a. case drop 2 a of [] \<Rightarrow> False | f # _ \<Rightarrow> bit f 1),
      decode = (\<lambda>b. if length b < 12 then Inl (Upstream ''short packet'') else Inr ''packet''),
      transformPseudoHeaders = (\<lambda>hs. (200, [], hs)),
      close_throws = False\<rparr>"

definition ex_node :: env where
  "ex_node = ex_env\<lparr>isNode := True\<rparr>"

definition ex_workers :: env where
  "ex_workers = ex_env\<lparr>isWorkers := True\<rparr>"

definition ex_query :: bytes where
  "ex_query = [0, 1, 1, 0, 0, 1, 0, 0, 0, 0, 0, 0, 0, 0, 1, 0, 1]"

definition ex_get :: request where
  "ex_get = \<lparr>url = ''https://front.test/'', req_method = ''GET'', req_headers = [], req_body = []\<rparr>"

definition ex_post :: request where
  "ex_post = \<lparr>url = ''https://front.test/'', req_method = ''POST'', req_headers = [],
              req_body = ex_query\<rparr>"

definition ex_put :: request where
  "ex_put = \<lparr>url = ''https://front.test/'', req_method = ''PUT'', req_headers = [],
             req_body = ex_query\<rparr>"

definition ex_param :: param where
  "ex_param = \<lparr>p_request = ex_post, requestBodyBuffer = ex_query, userDnsResolverUrl = []\<rparr>"

definition ex_answer :: response where
  "ex_answer = Response [0, 1, 129, 128, 0, 1, 0, 0, 0, 0, 0, 0, 0, 0, 1, 0, 1]"

text \<open>The resolver of the Node environment after its initialisation.\<close>

definition ex_node_resolver :: resolver where
  "ex_node_resolver = snd (lazyInit ex_node (constructor ex_node))"

text \<open>The request that \<open>resolveDnsUpstream\<close> builds for the first preferred resolver.\<close>

definition ex_dnsreq :: request where
  "ex_dnsreq = \<lparr>url = ''https://a.test/dns-query'', req_method = ''POST'',
                req_headers = concatHeaders (contentLengthHeader ex_query) (dnsHeaders ex_env),
                req_body = ex_query\<rparr>"

declare dispatch.simps(2) [simp del]

lemmas ex_defs =
  ex_workers_def ex_node_def ex_env_def constructor_def ex_post_def ex_put_def ex_get_def
  ex_param_def ex_parse_def ex_query_def ex_answer_def ex_set_port_def ex_set_protocol_def
  ex_default_port_def

lemmas h2_defs =
  executor_def req_end_def req_on_def c_request_def c_on_def connect_def h2_init_def
  reject_def resolve_def on_response_def on_end_def safeBox_def c_close_def Response_init_def
  origin_def

section \<open>The race: properties of \<open>Promise_any\<close>\<close>

lemma Promise_any_full:
  "list_all (\<lambda>x. x \<noteq> None) errors \<Longrightarrow>
   Promise_any errors sched = Rejected (AggregateError (map the errors))"
  by (cases sched) auto





section \<open>The loop of \<open>resolveDnsUpstream\<close>\<close>

lemma dispatch_blank:
  "emptyString e rurl \<Longrightarrow>
   dispatch e r rq query (rurl # rest) sent = dispatch e r rq query rest sent"
  by (simp add: dispatch.simps)

lemma dispatch_guard:
  "\<not> emptyString e rurl \<Longrightarrow> \<not> isGetRequest e rq \<Longrightarrow> \<not> isPostRequest e rq \<Longrightarrow>
   dispatch e r rq query (rurl # rest) sent =
     (if parseURL e (url rq) = None \<or> parseURL e rurl = None
      then (Some (TypeError ''Invalid URL''), sent)
      else (Some (Error ''get/post requests only''), sent))"
  by (simp add: dispatch.simps Let_def split: option.split)

lemma dispatch_step:
  "dispatch e r rq query (rurl # rest) sent = dispatch e r rq query rest sent \<or>
   (\<exists>x. dispatch e r rq query (rurl # rest) sent = (Some x, sent)) \<or>
   (\<exists>d. dispatch e r rq query (rurl # rest) sent =
      dispatch e r rq query rest (sent @ [attempt r d]))"
  by (simp add: dispatch.simps Let_def split: option.split) blast

lemma dispatch_all_blank:
  "\<forall>u \<in> set urls. emptyString e u \<Longrightarrow> dispatch e r rq query urls sent = (None, sent)"
  by (induction urls) (simp_all add: dispatch_blank)

text \<open>
  The loop runs to its end, with one attempt for every URL that is not blank, whenever
  the method is GET or POST and the URL of the request and the resolver URLs parse.
\<close>

lemma dispatch_push:
  "\<not> emptyString e rurl \<Longrightarrow> isGetRequest e rq \<or> isPostRequest e rq \<Longrightarrow>
   parseURL e (url rq) \<noteq> None \<Longrightarrow> parseURL e rurl \<noteq> None \<Longrightarrow>
   \<exists>d. dispatch e r rq query (rurl # rest) sent =
        dispatch e r rq query rest (sent @ [attempt r d])"
  by (auto simp: dispatch.simps Let_def)

lemma dispatch_completes:
  assumes "isGetRequest e rq \<or> isPostRequest e rq"
    and "parseURL e (url rq) \<noteq> None"
    and "\<forall>u \<in> set urls. \<not> emptyString e u \<longrightarrow> parseURL e u \<noteq> None"
  shows "\<exists>new. dispatch e r rq query urls sent = (None, sent @ new) \<and>
           length new = length (filter (\<lambda>u. \<not> emptyString e u) urls)"
  using assms(3)
proof (induction urls arbitrary: sent)
  case Nil
  then show ?case by simp
next
  case (Cons rurl urls)
  then have rest: "\<forall>u \<in> set urls. \<not> emptyString e u \<longrightarrow> parseURL e u \<noteq> None" by simp
  show ?case
  proof (cases "emptyString e rurl")
    case True
    then show ?thesis using Cons.IH [OF rest, of sent] by (simp add: dispatch_blank)
  next
    case False
    then have "parseURL e rurl \<noteq> None" using Cons.prems by simp
    from dispatch_push [OF False assms(1,2) this, of r query urls sent] obtain d where
      d: "dispatch e r rq query (rurl # urls) sent =
          dispatch e r rq query urls (sent @ [attempt r d])"
      by blast
    from Cons.IH [OF rest, of "sent @ [attempt r d]"] obtain new where
      "dispatch e r rq query urls (sent @ [attempt r d]) = (None, (sent @ [attempt r d]) @ new)"
      "length new = length (filter (\<lambda>u. \<not> emptyString e u) urls)"
      by blast
    then have "dispatch e r rq query (rurl # urls) sent = (None, sent @ (attempt r d # new)) \<and>
        length (attempt r d # new) = length (filter (\<lambda>u. \<not> emptyString e u) (rurl # urls))"
      using d False by simp
    then show ?thesis by blast
  qed
qed

lemma dispatch_guard_sent:
  "\<not> isGetRequest e rq \<Longrightarrow> \<not> isPostRequest e rq \<Longrightarrow>
   snd (dispatch e r rq query urls sent) = sent"
proof (induction urls)
  case Nil
  then show ?case by simp
next
  case (Cons rurl urls)
  then show ?case
    by (cases "emptyString e rurl") (simp_all add: dispatch_blank dispatch_guard)
qed

lemma dispatch_guard_reason:
  "\<not> isGetRequest e rq \<Longrightarrow> \<not> isPostRequest e rq \<Longrightarrow>
   find (\<lambda>u. \<not> emptyString e u) urls = Some rurl \<Longrightarrow>
   parseURL e (url rq) \<noteq> None \<Longrightarrow> parseURL e rurl \<noteq> None \<Longrightarrow>
   fst (dispatch e r rq query urls sent) = Some (Error ''get/post requests only'')"
proof (induction urls)
  case Nil
  then show ?case by simp
next
  case (Cons u urls)
  then show ?case
    by (cases "emptyString e u") (simp_all add: dispatch_blank dispatch_guard)
qed

lemma dispatch_guard_fails:
  "\<not> isGetRequest e rq \<Longrightarrow> \<not> isPostRequest e rq \<Longrightarrow>
   \<exists>u \<in> set urls. \<not> emptyString e u \<Longrightarrow>
   fst (dispatch e r rq query urls sent) \<noteq> None"
proof (induction urls)
  case Nil
  then show ?case by simp
next
  case (Cons u urls)
  then show ?case
    by (cases "emptyString e u") (simp_all add: dispatch_blank dispatch_guard)
qed

lemma Promise_any_sentinel_only:
  "Promise_any [Some x] sched = Rejected (AggregateError [x])"
  by (simp add: Promise_any_full)

lemma dispatch_attempts:
  "c \<in> set (snd (dispatch e r rq query urls sent)) \<Longrightarrow> c \<in> set sent \<or> (\<exists>d. c = attempt r d)"
proof (induction urls arbitrary: sent)
  case Nil
  then show ?case by simp
next
  case (Cons rurl urls)
  from dispatch_step [of e r rq query rurl urls sent]
  consider
    (skip) "dispatch e r rq query (rurl # urls) sent = dispatch e r rq query urls sent"
  | (leave) x where "dispatch e r rq query (rurl # urls) sent = (Some x, sent)"
  | (push) d where "dispatch e r rq query (rurl # urls) sent =
      dispatch e r rq query urls (sent @ [attempt r d])"
    by blast
  then show ?case
  proof cases
    case skip
    then show ?thesis using Cons by simp
  next
    case leave
    then show ?thesis using Cons.prems by simp
  next
    case push
    then have "c \<in> set (snd (dispatch e r rq query urls (sent @ [attempt r d])))"
      using Cons.prems by simp
    from Cons.IH [OF this] show ?thesis by auto
  qed
qed

lemma ex_workers_dispatch:
  "dispatch ex_workers (constructor ex_workers) ex_post ex_query
     [''https://a.test/dns-query'', ''https://b.test/dns-query''] [] =
   (None,
    [FetchCall \<lparr>url = ''https://a.test/dns-query'', req_method = ''POST'',
                req_headers = [(''content-length'', ''17''),
                               (''accept'', ''application/dns-message''),
                               (''content-type'', ''application/dns-message'')],
                req_body = ex_query\<rparr>,
     FetchCall \<lparr>url = ''https://b.test/dns-query'', req_method = ''POST'',
                req_headers = [(''content-length'', ''17''),
                               (''accept'', ''application/dns-message''),
                               (''content-type'', ''application/dns-message'')],
                req_body = ex_query\<rparr>])"
  by (simp add: dispatch.simps ex_defs attempt_def href_def origin_def concatHeaders_def
      contentLengthHeader_def decimal.simps)

section \<open>Initialisation, the selector and the calls of a resolution\<close>

lemma lazyInit_http2:
  "http2 (snd (lazyInit e r)) \<noteq> None \<Longrightarrow> http2 r \<noteq> None \<or> isNode e"
  by (auto simp: lazyInit_def Let_def split: if_splits)

lemma lazyInit_transport:
  "lazyInit e r = (None, r') \<Longrightarrow> isNode e \<Longrightarrow> transport r' \<noteq> None"
  by (auto simp: lazyInit_def Let_def split: if_splits)

lemma RethinkModule_resolver:
  "fst (snd (RethinkModule e r p sched)) = snd (lazyInit e r)"
  by (cases "lazyInit e r")
     (auto simp: RethinkModule_def split: option.splits prod.splits outcome.splits)

lemma serve_http2:
  "http2 r \<noteq> None \<longrightarrow> isNode e \<Longrightarrow> http2 (serve e r hist) \<noteq> None \<longrightarrow> isNode e"
proof (induction hist arbitrary: r)
  case Nil
  then show ?case by simp
next
  case (Cons ps hist)
  have "http2 (snd (lazyInit e r)) \<noteq> None \<longrightarrow> isNode e"
    using Cons.prems lazyInit_http2 [of e r] by blast
  then have "http2 (serve e (snd (lazyInit e r)) hist) \<noteq> None \<longrightarrow> isNode e"
    by (rule Cons.IH)
  then show ?case by (simp add: RethinkModule_resolver)
qed

lemma lazyInit_served:
  assumes "lazyInit e (serve e (constructor e) hist) = (None, r')" and "http2 r' \<noteq> None"
  shows "transport r' \<noteq> None"
proof -
  have "http2 (serve e (constructor e) hist) \<noteq> None \<longrightarrow> isNode e"
    by (rule serve_http2) (simp add: constructor_def)
  moreover have "http2 (snd (lazyInit e (serve e (constructor e) hist))) \<noteq> None"
    using assms by simp
  ultimately have "isNode e"
    using lazyInit_http2 [of e "serve e (constructor e) hist"] by blast
  with assms(1) show ?thesis by (rule lazyInit_transport)
qed

text \<open>
  Selector priority: with a transport object the selector returns no endpoint, whatever
  the request asks for.
\<close>

lemma determineDohResolvers_priority:
  "transport r \<noteq> None \<Longrightarrow> determineDohResolvers e r p = UrlArray []"
  by (simp add: determineDohResolvers_def)

lemma plainOldDns_calls:
  "c \<in> set (snd (plainOldDns e r q)) \<Longrightarrow> c = UdpQuery q \<or> c = TcpQuery q"
  by (auto simp: plainOldDns_def split: option.splits outcome.splits if_splits)

lemma decodeResponse_calls:
  "c \<in> set (snd (decodeResponse e resp)) \<Longrightarrow>
   c = ReadText \<or> c = ReadArrayBuffer \<or> (\<exists>b. c = DecodeCall b)"
  by (auto simp: decodeResponse_def Let_def split: option.splits sum.splits if_splits)

lemma upstream_calls_no_doh2:
  assumes "http2 r \<noteq> None \<longrightarrow> emptyArray e urls"
    and "c \<in> set (snd (resolveDnsUpstream e r rq urls q sched))"
  shows "c \<noteq> Doh2Call d"
proof (cases "emptyArray e urls")
  case True
  then have "c \<in> set (snd (plainOldDns e r q))"
    using assms(2) by (simp add: resolveDnsUpstream_def)
  from plainOldDns_calls [OF this] show ?thesis by auto
next
  case False
  with assms(1) have h: "http2 r = None" by blast
  from False assms(2) have "c \<in> set (snd (dispatch e r rq q (elements urls) []))"
    by (auto simp: resolveDnsUpstream_def split: prod.splits option.splits)
  from dispatch_attempts [OF this] obtain x where "c = attempt r x" by auto
  then show ?thesis using h by (simp add: attempt_def)
qed

lemma fetch_only:
  assumes "http2 r = None" and "\<not> emptyArray e urls"
    and "c \<in> set (snd (resolveDnsUpstream e r rq urls q sched))"
  shows "\<exists>d. c = FetchCall d"
proof -
  from assms(2,3) have "c \<in> set (snd (dispatch e r rq q (elements urls) []))"
    by (auto simp: resolveDnsUpstream_def split: prod.splits option.splits)
  from dispatch_attempts [OF this] obtain x where "c = attempt r x" by auto
  then show ?thesis using assms(1) by (simp add: attempt_def)
qed

lemma resolveDns_calls:
  "c \<in> set (snd (resolveDns e r p sched)) \<Longrightarrow>
   c \<in> set (snd (resolveDnsUpstream e r (p_request p) (determineDohResolvers e r p)
                  (requestBodyBuffer p) sched)) \<or>
   (\<exists>resp. c \<in> set (snd (decodeResponse e resp)))"
proof -
  assume c: "c \<in> set (snd (resolveDns e r p sched))"
  obtain out cs where up: "resolveDnsUpstream e r (p_request p) (determineDohResolvers e r p)
      (requestBodyBuffer p) sched = (out, cs)"
    by (cases "resolveDnsUpstream e r (p_request p) (determineDohResolvers e r p)
      (requestBodyBuffer p) sched")
  show ?thesis
  proof (cases out)
    case (Fulfilled upRes)
    obtain res cs' where dec: "decodeResponse e (Some upRes) = (res, cs')"
      by (cases "decodeResponse e (Some upRes)")
    have "snd (resolveDns e r p sched) = cs @ cs'"
      using up Fulfilled dec by (cases res) (simp_all add: resolveDns_def)
    with c have "c \<in> set cs \<or> c \<in> set (snd (decodeResponse e (Some upRes)))"
      using dec by auto
    then show ?thesis using up by auto
  next
    case (Rejected x)
    then show ?thesis using c up by (simp add: resolveDns_def)
  next
    case Pending
    then show ?thesis using c up by (simp add: resolveDns_def)
  qed
qed

lemma RethinkModule_calls:
  "c \<in> set (snd (snd (RethinkModule e r p sched))) \<Longrightarrow>
   \<exists>r'. lazyInit e r = (None, r') \<and> c \<in> set (snd (resolveDns e r' p sched))"
  by (auto simp: RethinkModule_def split: prod.splits option.splits outcome.splits)

lemma ex_node_resolver_fields:
  "http2 ex_node_resolver \<noteq> None"
  "transport ex_node_resolver = Some \<lparr>ip = ''1.1.1.1'', tport = 53\<rparr>"
  by (simp_all add: ex_node_resolver_def lazyInit_def ex_defs)

lemma ex_workers_init:
  "lazyInit ex_workers (constructor ex_workers) = (None, constructor ex_workers)"
  by (simp add: lazyInit_def ex_defs)

lemma ex_workers_nonempty:
  "\<not> emptyArray ex_workers (UrlArray [''https://a.test/dns-query'', ''https://b.test/dns-query''])"
  by simp

lemma ex_workers_upstream:
  "FetchCall \<lparr>url = ''https://a.test/dns-query'', req_method = ''POST'',
              req_headers = [(''content-length'', ''17''),
                             (''accept'', ''application/dns-message''),
                             (''content-type'', ''application/dns-message'')],
              req_body = ex_query\<rparr>
   \<in> set (snd (resolveDnsUpstream ex_workers (constructor ex_workers) ex_post
          (UrlArray [''https://a.test/dns-query'', ''https://b.test/dns-query'']) ex_query []))"
  using ex_workers_dispatch by (simp add: resolveDnsUpstream_def)

section \<open>The exchange of \<open>doh2\<close>\<close>

lemma executor_fields:
  "calls (executor u rq q hs) =
     [Connect (origin u), ConnOn OnError, StreamRequest (req_method rq) (pathname u) hs,
      StreamOn OnResponse, StreamOn OnError, StreamEnd q]"
  "conn_on (executor u rq q hs) = [OnError]"
  "stream_on (executor u rq q hs) = [OnResponse, OnError]"
  "closures (executor u rq q hs) = []"
  "closed (executor u rq q hs) = False"
  "settled (executor u rq q hs) = Pending"
  by (simp_all add: executor_def req_end_def req_on_def c_request_def c_on_def connect_def
      h2_init_def)

lemma on_end_fields:
  "calls (on_end e cl st) = calls st @ [ConnClose]"
  "closed (on_end e cl st) = closed st"
  "conn_on (on_end e cl st) = conn_on st"
  "stream_on (on_end e cl st) = stream_on st"
  "closures (on_end e cl st) = closures st"
  "settled (on_end e cl st) =
     (if settled st = Pending
      then Fulfilled (Response_init (concat (snd cl)) (transformPseudoHeaders e (fst cl)))
      else settled st)"
  by (simp_all add: on_end_def Let_def resolve_def safeBox_def c_close_def)

lemma ends_fields:
  "calls (foldl (\<lambda>s cl. on_end e cl s) st cls) = calls st @ replicate (length cls) ConnClose"
  "closed (foldl (\<lambda>s cl. on_end e cl s) st cls) = closed st"
  "conn_on (foldl (\<lambda>s cl. on_end e cl s) st cls) = conn_on st"
  "stream_on (foldl (\<lambda>s cl. on_end e cl s) st cls) = stream_on st"
  "closures (foldl (\<lambda>s cl. on_end e cl s) st cls) = closures st"
  by (induction cls arbitrary: st; simp add: on_end_fields replicate_append_same)+

lemma ends_settled:
  "settled (foldl (\<lambda>s cl. on_end e cl s) st cls) =
     (if settled st = Pending \<and> cls \<noteq> []
      then Fulfilled (Response_init (concat (snd (hd cls))) (transformPseudoHeaders e (fst (hd cls))))
      else settled st)"
proof (induction cls arbitrary: st)
  case Nil
  then show ?case by simp
next
  case (Cons cl cls)
  show ?case by (simp add: Cons.IH on_end_fields)
qed

lemma reject_fields:
  "calls (reject x st) = calls st"
  "closed (reject x st) = closed st"
  "conn_on (reject x st) = conn_on st"
  "stream_on (reject x st) = stream_on st"
  "closures (reject x st) = closures st"
  "settled (reject x st) = (if settled st = Pending then Rejected x else settled st)"
  by (simp_all add: reject_def)

lemma on_response_fields:
  "calls (on_response hs st) = calls st @ [StreamOn OnData, StreamOn OnEnd]"
  "closed (on_response hs st) = closed st"
  "conn_on (on_response hs st) = conn_on st"
  "stream_on (on_response hs st) = stream_on st @ [OnData, OnEnd]"
  "closures (on_response hs st) = closures st @ [(hs, [])]"
  "settled (on_response hs st) = settled st"
  by (simp_all add: on_response_def req_on_def)

text \<open>No event closes the session: the only call of \<open>close\<close> runs without its receiver.\<close>

lemma emit_closed: "closed (emit e st ev) = closed st"
proof (cases ev)
  case (ConnErrorEv m)
  then show ?thesis by (simp add: reject_fields)
next
  case (ResponseEv hs)
  then show ?thesis by (simp add: on_response_fields)
next
  case (DataEv chunk)
  then show ?thesis by simp
next
  case EndEv
  then show ?thesis by (simp add: ends_fields)
next
  case (StreamErrorEv m)
  then show ?thesis by (simp add: reject_fields)
qed

lemma run_closed: "closed (foldl (emit e) st evs) = closed st"
proof (induction evs arbitrary: st)
  case Nil
  then show ?case by simp
next
  case (Cons ev evs)
  have "closed (foldl (emit e) (emit e st ev) evs) = closed (emit e st ev)" by (rule Cons.IH)
  then show ?case by (simp add: emit_closed)
qed

lemma doh2_run:
  "http2 r \<noteq> None \<Longrightarrow> nodeUtil r \<noteq> None \<Longrightarrow> parseURL e (url rq) = Some u \<Longrightarrow>
   doh2 e r rq evs = foldl (emit e) (executor u rq (req_body rq) (req_headers rq)) evs"
  by (simp add: doh2_def)

lemma doh2_never_closed: "\<not> closed (doh2 e r rq evs)"
proof (cases "http2 r = None \<or> nodeUtil r = None \<or> parseURL e (url rq) = None")
  case True
  then show ?thesis by (auto simp: doh2_def h2_init_def)
next
  case False
  then obtain u where "http2 r \<noteq> None" "nodeUtil r \<noteq> None" "parseURL e (url rq) = Some u"
    by auto
  then have "doh2 e r rq evs = foldl (emit e) (executor u rq (req_body rq) (req_headers rq)) evs"
    by (rule doh2_run)
  then show ?thesis by (simp add: run_closed executor_fields)
qed

text \<open>A promise settles once.\<close>

lemma emit_settled: "settled st \<noteq> Pending \<Longrightarrow> settled (emit e st ev) = settled st"
proof (cases ev)
  case (ConnErrorEv m)
  assume "settled st \<noteq> Pending"
  then show ?thesis using ConnErrorEv by (simp add: reject_fields)
next
  case (ResponseEv hs)
  then show ?thesis by (simp add: on_response_fields)
next
  case (DataEv chunk)
  then show ?thesis by simp
next
  case EndEv
  assume "settled st \<noteq> Pending"
  then show ?thesis using EndEv by (simp add: ends_settled)
next
  case (StreamErrorEv m)
  assume "settled st \<noteq> Pending"
  then show ?thesis using StreamErrorEv by (simp add: reject_fields)
qed

lemma run_settled: "settled st \<noteq> Pending \<Longrightarrow> settled (foldl (emit e) st evs) = settled st"
proof (induction evs arbitrary: st)
  case Nil
  then show ?case by simp
next
  case (Cons ev evs)
  from Cons.prems have s: "settled (emit e st ev) = settled st" by (rule emit_settled)
  with Cons.prems have "settled (emit e st ev) \<noteq> Pending" by simp
  then have "settled (foldl (emit e) (emit e st ev) evs) = settled (emit e st ev)"
    by (rule Cons.IH)
  with s show ?case by simp
qed

lemma emit_calls:
  "\<exists>post. calls (emit e st ev) = calls st @ post \<and>
          set post \<subseteq> {StreamOn OnData, StreamOn OnEnd, ConnClose} \<and>
          (StreamOn OnData \<in> set post \<longrightarrow> (\<exists>hs. ev = ResponseEv hs)) \<and>
          (ConnClose \<in> set post \<longrightarrow> ev = EndEv)"
proof (cases ev)
  case (ConnErrorEv m)
  then show ?thesis by (simp add: reject_fields)
next
  case (ResponseEv hs)
  then show ?thesis by (simp add: on_response_fields)
next
  case (DataEv chunk)
  then show ?thesis by simp
next
  case EndEv
  then show ?thesis by (auto simp: ends_fields)
next
  case (StreamErrorEv m)
  then show ?thesis by (simp add: reject_fields)
qed

lemma run_calls:
  "\<exists>post. calls (foldl (emit e) st evs) = calls st @ post \<and>
          set post \<subseteq> {StreamOn OnData, StreamOn OnEnd, ConnClose} \<and>
          (StreamOn OnData \<in> set post \<longrightarrow> (\<exists>hs. ResponseEv hs \<in> set evs)) \<and>
          (ConnClose \<in> set post \<longrightarrow> EndEv \<in> set evs)"
proof (induction evs arbitrary: st)
  case Nil
  then show ?case by simp
next
  case (Cons ev evs)
  from emit_calls [of e st ev] obtain p1 where
    p1: "calls (emit e st ev) = calls st @ p1"
        "set p1 \<subseteq> {StreamOn OnData, StreamOn OnEnd, ConnClose}"
        "StreamOn OnData \<in> set p1 \<longrightarrow> (\<exists>hs. ev = ResponseEv hs)"
        "ConnClose \<in> set p1 \<longrightarrow> ev = EndEv"
    by blast
  from Cons.IH [of "emit e st ev"] obtain p2 where
    p2: "calls (foldl (emit e) (emit e st ev) evs) = calls (emit e st ev) @ p2"
        "set p2 \<subseteq> {StreamOn OnData, StreamOn OnEnd, ConnClose}"
        "StreamOn OnData \<in> set p2 \<longrightarrow> (\<exists>hs. ResponseEv hs \<in> set evs)"
        "ConnClose \<in> set p2 \<longrightarrow> EndEv \<in> set evs"
    by blast
  have "calls (foldl (emit e) st (ev # evs)) = calls st @ (p1 @ p2)"
    using p1(1) p2(1) by simp
  moreover have "set (p1 @ p2) \<subseteq> {StreamOn OnData, StreamOn OnEnd, ConnClose}"
    using p1(2) p2(2) by simp
  moreover have "StreamOn OnData \<in> set (p1 @ p2) \<longrightarrow> (\<exists>hs. ResponseEv hs \<in> set (ev # evs))"
    using p1(3) p2(3) by auto
  moreover have "ConnClose \<in> set (p1 @ p2) \<longrightarrow> EndEv \<in> set (ev # evs)"
    using p1(4) p2(4) by auto
  ultimately show ?case by blast
qed

text \<open>
  Response headers and chunks leave the promise pending and the error handlers in
  place.
\<close>

lemma quiet_emit:
  assumes "(\<exists>hs. ev = ResponseEv hs) \<or> (\<exists>c. ev = DataEv c)"
  shows "settled (emit e st ev) = settled st \<and> conn_on (emit e st ev) = conn_on st \<and>
         (OnError \<in> set (stream_on st) \<longrightarrow> OnError \<in> set (stream_on (emit e st ev)))"
  using assms by (auto simp: on_response_fields)

lemma quiet_run:
  assumes "\<forall>ev \<in> set pre. (\<exists>hs. ev = ResponseEv hs) \<or> (\<exists>c. ev = DataEv c)"
    and "OnError \<in> set (stream_on st)"
  shows "settled (foldl (emit e) st pre) = settled st \<and>
         conn_on (foldl (emit e) st pre) = conn_on st \<and>
         OnError \<in> set (stream_on (foldl (emit e) st pre))"
  using assms
proof (induction pre arbitrary: st)
  case Nil
  then show ?case by simp
next
  case (Cons ev pre)
  from Cons.prems(1) have q: "(\<exists>hs. ev = ResponseEv hs) \<or> (\<exists>c. ev = DataEv c)" by simp
  from Cons.prems(1) have rest: "\<forall>ev \<in> set pre. (\<exists>hs. ev = ResponseEv hs) \<or> (\<exists>c. ev = DataEv c)"
    by simp
  from quiet_emit [OF q, of e st] Cons.prems(2)
  have 1: "settled (emit e st ev) = settled st" "conn_on (emit e st ev) = conn_on st"
      "OnError \<in> set (stream_on (emit e st ev))"
    by blast+
  from Cons.IH [OF rest 1(3)] 1(1,2) show ?case by simp
qed

text \<open>
  An error of the stream or of the session that comes before the end of the stream
  rejects the promise with its message, and \<open>close\<close> is not run unless the stream still
  ends afterwards.
\<close>

lemma error_rejects:
  assumes "http2 r \<noteq> None" and "nodeUtil r \<noteq> None" and "parseURL e (url rq) = Some u"
    and "\<forall>ev \<in> set pre. (\<exists>hs. ev = ResponseEv hs) \<or> (\<exists>c. ev = DataEv c)"
    and "err = StreamErrorEv m \<or> err = ConnErrorEv m"
  shows "settled (doh2 e r rq (pre @ err # rest)) = Rejected (Message m) \<and>
         (EndEv \<notin> set rest \<longrightarrow> ConnClose \<notin> set (calls (doh2 e r rq (pre @ err # rest))))"
proof -
  let ?st0 = "executor u rq (req_body rq) (req_headers rq)"
  let ?st1 = "foldl (emit e) ?st0 pre"
  have run: "doh2 e r rq (pre @ err # rest) = foldl (emit e) (emit e ?st1 err) rest"
    using doh2_run [OF assms(1-3)] by simp
  have "OnError \<in> set (stream_on ?st0)" by (simp add: executor_fields)
  from quiet_run [OF assms(4) this, of e]
  have st1: "settled ?st1 = Pending" "conn_on ?st1 = [OnError]" "OnError \<in> set (stream_on ?st1)"
    by (simp_all add: executor_fields)
  have err: "settled (emit e ?st1 err) = Rejected (Message m)"
    using assms(5) st1 by (auto simp: reject_fields)
  then have "settled (foldl (emit e) (emit e ?st1 err) rest) = Rejected (Message m)"
    using run_settled [of "emit e ?st1 err" e rest] by simp
  then have 1: "settled (doh2 e r rq (pre @ err # rest)) = Rejected (Message m)"
    by (simp add: run)
  have 2: "ConnClose \<notin> set (calls (doh2 e r rq (pre @ err # rest)))" if "EndEv \<notin> set rest"
  proof -
    have noend: "EndEv \<notin> set (pre @ err # rest)"
      using assms(4,5) that by auto
    from run_calls [of e ?st0 "pre @ err # rest"] obtain post where
      post: "calls (foldl (emit e) ?st0 (pre @ err # rest)) = calls ?st0 @ post"
            "ConnClose \<in> set post \<longrightarrow> EndEv \<in> set (pre @ err # rest)"
      by blast
    from post(2) noend have "ConnClose \<notin> set post" by blast
    then show ?thesis
      using doh2_run [OF assms(1-3), of "pre @ err # rest"] post(1)
      by (simp add: executor_fields)
  qed
  from 1 2 show ?thesis by blast
qed

text \<open>Chunks are appended, in their order, to the array of the one closure.\<close>

lemma data_run:
  assumes "closures st = [(hs, b)]"
  shows "closures (foldl (emit e) st (map DataEv chunks)) = [(hs, b @ chunks)] \<and>
         settled (foldl (emit e) st (map DataEv chunks)) = settled st \<and>
         calls (foldl (emit e) st (map DataEv chunks)) = calls st"
  using assms
proof (induction chunks arbitrary: st b)
  case Nil
  then show ?case by simp
next
  case (Cons c chunks)
  have "closures (emit e st (DataEv c)) = [(hs, b @ [c])]" using Cons.prems by simp
  from Cons.IH [OF this] show ?case by simp
qed

text \<open>
  An exchange that receives the response headers, then chunks, then the end of the
  stream is fulfilled with the chunks in their order; \<open>close\<close> has run, and the session
  is not closed.
\<close>

lemma success_resolves:
  assumes "http2 r \<noteq> None" and "nodeUtil r \<noteq> None" and "parseURL e (url rq) = Some u"
  shows "settled (doh2 e r rq (ResponseEv hs # map DataEv chunks @ EndEv # rest)) =
           Fulfilled (Response_init (concat chunks) (transformPseudoHeaders e hs)) \<and>
         ConnClose \<in> set (calls (doh2 e r rq (ResponseEv hs # map DataEv chunks @ EndEv # rest))) \<and>
         \<not> closed (doh2 e r rq (ResponseEv hs # map DataEv chunks @ EndEv # rest))"
proof -
  define st0 where "st0 = executor u rq (req_body rq) (req_headers rq)"
  define st1 where "st1 = emit e st0 (ResponseEv hs)"
  define st2 where "st2 = foldl (emit e) st1 (map DataEv chunks)"
  define st3 where "st3 = emit e st2 EndEv"
  have run: "doh2 e r rq (ResponseEv hs # map DataEv chunks @ EndEv # rest) =
      foldl (emit e) st3 rest"
    using doh2_run [OF assms] by (simp add: st0_def st1_def st2_def st3_def)
  have "st1 = on_response hs st0"
    by (simp add: st1_def st0_def executor_fields)
  then have st1: "closures st1 = [(hs, [])]" "settled st1 = Pending"
    by (simp_all add: st0_def executor_fields on_response_fields)
  from data_run [OF st1(1), of e chunks]
  have st2: "closures st2 = [(hs, chunks)]" "settled st2 = Pending"
    using st1(2) by (simp_all add: st2_def)
  have "st3 = foldl (\<lambda>s cl. on_end e cl s) st2 [(hs, chunks)]"
    using st2(1) by (simp add: st3_def)
  then have st3: "settled st3 =
        Fulfilled (Response_init (concat chunks) (transformPseudoHeaders e hs))"
      "calls st3 = calls st2 @ [ConnClose]"
    using st2(2) by (simp_all add: on_end_fields)
  have 1: "settled (foldl (emit e) st3 rest) =
      Fulfilled (Response_init (concat chunks) (transformPseudoHeaders e hs))"
    using run_settled [of st3 e rest] st3(1) by simp
  from run_calls [of e st3 rest] obtain post where
    "calls (foldl (emit e) st3 rest) = calls st3 @ post"
    by blast
  then have 2: "ConnClose \<in> set (calls (foldl (emit e) st3 rest))"
    using st3(2) by simp
  from 1 2 doh2_never_closed [of e r rq "ResponseEv hs # map DataEv chunks @ EndEv # rest"]
  show ?thesis unfolding run by blast
qed

text \<open>
  The order of the calls: when the query is written the stream has the handlers of
  \<open>response\<close> and \<open>error\<close> and the session the handler of \<open>error\<close>; the handlers of
  \<open>data\<close> and \<open>end\<close> are registered by the first response event, after the write.
\<close>

lemma write_order:
  assumes "http2 r \<noteq> None" and "nodeUtil r \<noteq> None" and "parseURL e (url rq) = Some u"
  shows "calls (doh2 e r rq []) =
           [Connect (origin u), ConnOn OnError,
            StreamRequest (req_method rq) (pathname u) (req_headers rq),
            StreamOn OnResponse, StreamOn OnError, StreamEnd (req_body rq)] \<and>
         stream_on (doh2 e r rq []) = [OnResponse, OnError] \<and>
         conn_on (doh2 e r rq []) = [OnError] \<and>
         (\<exists>post. calls (doh2 e r rq (ResponseEv hs # rest)) =
            [Connect (origin u), ConnOn OnError,
             StreamRequest (req_method rq) (pathname u) (req_headers rq),
             StreamOn OnResponse, StreamOn OnError, StreamEnd (req_body rq),
             StreamOn OnData, StreamOn OnEnd] @ post)"
proof -
  let ?st0 = "executor u rq (req_body rq) (req_headers rq)"
  have 0: "doh2 e r rq [] = ?st0" using doh2_run [OF assms, of "[]"] by simp
  have run: "doh2 e r rq (ResponseEv hs # rest) = foldl (emit e) (emit e ?st0 (ResponseEv hs)) rest"
    using doh2_run [OF assms] by simp
  from run_calls [of e "emit e ?st0 (ResponseEv hs)" rest] obtain post where
    "calls (foldl (emit e) (emit e ?st0 (ResponseEv hs)) rest) =
       calls (emit e ?st0 (ResponseEv hs)) @ post"
    by blast
  then have "calls (doh2 e r rq (ResponseEv hs # rest)) =
            [Connect (origin u), ConnOn OnError,
             StreamRequest (req_method rq) (pathname u) (req_headers rq),
             StreamOn OnResponse, StreamOn OnError, StreamEnd (req_body rq),
             StreamOn OnData, StreamOn OnEnd] @ post"
    unfolding run by (simp add: executor_fields on_response_fields)
  then show ?thesis using 0 by (auto simp: executor_fields)
qed

lemma ex_node_resolver_value:
  "ex_node_resolver =
     \<lparr>http2 = Some (), nodeUtil = Some (),
      transport = Some \<lparr>ip = ''1.1.1.1'', tport = 53\<rparr>,
      preferredDohResolvers = [''https://a.test/dns-query'', ''https://b.test/dns-query'']\<rparr>"
  by (simp add: ex_node_resolver_def lazyInit_def ex_defs)

lemma ex_node_served: "serve ex_node (constructor ex_node) [(ex_param, [])] = ex_node_resolver"
  by (simp add: RethinkModule_resolver ex_node_resolver_def)

lemma ex_node_init_again: "lazyInit ex_node ex_node_resolver = (None, ex_node_resolver)"
  by (simp add: ex_node_resolver_value lazyInit_def ex_node_def ex_env_def)

lemma ex_doh2_start:
  "doh2 ex_node ex_node_resolver ex_dnsreq evs =
     foldl (emit ex_node)
       \<lparr>conn_on = [OnError], stream_on = [OnResponse, OnError], closures = [],
        calls = [Connect ''https://a.test'', ConnOn OnError,
                 StreamRequest ''POST'' ''/dns-query''
                   [(''content-length'', ''17''), (''accept'', ''application/dns-message''),
                    (''content-type'', ''application/dns-message'')],
                 StreamOn OnResponse, StreamOn OnError, StreamEnd ex_query],
        closed = False, settled = Pending\<rparr> evs"
  by (simp add: doh2_def ex_node_resolver_value ex_dnsreq_def ex_defs h2_defs concatHeaders_def
      contentLengthHeader_def decimal.simps)

lemma ex_doh2_error:
  "settled (doh2 ex_node ex_node_resolver ex_dnsreq
      [ResponseEv [], DataEv [0, 1], StreamErrorEv ''reset'']) = Rejected (Message ''reset'')"
  "calls (doh2 ex_node ex_node_resolver ex_dnsreq
      [ResponseEv [], DataEv [0, 1], StreamErrorEv ''reset'']) =
     [Connect ''https://a.test'', ConnOn OnError,
      StreamRequest ''POST'' ''/dns-query''
        [(''content-length'', ''17''), (''accept'', ''application/dns-message''),
         (''content-type'', ''application/dns-message'')],
      StreamOn OnResponse, StreamOn OnError, StreamEnd ex_query,
      StreamOn OnData, StreamOn OnEnd]"
  "closed (doh2 ex_node ex_node_resolver ex_dnsreq
      [ResponseEv [], DataEv [0, 1], StreamErrorEv ''reset'']) = False"
  using ex_doh2_start [of "[ResponseEv [], DataEv [0, 1], StreamErrorEv ''reset'']"]
  by (simp_all add: h2_defs)

lemma ex_doh2_success:
  "settled (doh2 ex_node ex_node_resolver ex_dnsreq
      [ResponseEv [], DataEv [0, 1], DataEv [2], EndEv]) =
     Fulfilled \<lparr>status = 200, statusText = [], res_headers = [], body = [0, 1, 2]\<rparr>"
  "calls (doh2 ex_node ex_node_resolver ex_dnsreq
      [ResponseEv [], DataEv [0, 1], DataEv [2], EndEv]) =
     [Connect ''https://a.test'', ConnOn OnError,
      StreamRequest ''POST'' ''/dns-query''
        [(''content-length'', ''17''), (''accept'', ''application/dns-message''),
         (''content-type'', ''application/dns-message'')],
      StreamOn OnResponse, StreamOn OnError, StreamEnd ex_query,
      StreamOn OnData, StreamOn OnEnd, ConnClose]"
  "closed (doh2 ex_node ex_node_resolver ex_dnsreq
      [ResponseEv [], DataEv [0, 1], DataEv [2], EndEv]) = False"
  using ex_doh2_start [of "[ResponseEv [], DataEv [0, 1], DataEv [2], EndEv]"]
  by (simp_all add: ex_node_def ex_env_def h2_defs)

lemma ex_doh2_write:
  "calls (doh2 ex_node ex_node_resolver ex_dnsreq []) =
     [Connect ''https://a.test'', ConnOn OnError,
      StreamRequest ''POST'' ''/dns-query''
        [(''content-length'', ''17''), (''accept'', ''application/dns-message''),
         (''content-type'', ''application/dns-message'')],
      StreamOn OnResponse, StreamOn OnError, StreamEnd ex_query]"
  "stream_on (doh2 ex_node ex_node_resolver ex_dnsreq []) = [OnResponse, OnError]"
  "conn_on (doh2 ex_node ex_node_resolver ex_dnsreq []) = [OnError]"
  "calls (doh2 ex_node ex_node_resolver ex_dnsreq [ResponseEv []]) =
     [Connect ''https://a.test'', ConnOn OnError,
      StreamRequest ''POST'' ''/dns-query''
        [(''content-length'', ''17''), (''accept'', ''application/dns-message''),
         (''content-type'', ''application/dns-message'')],
      StreamOn OnResponse, StreamOn OnError, StreamEnd ex_query,
      StreamOn OnData, StreamOn OnEnd]"
  using ex_doh2_start [of "[]"] ex_doh2_start [of "[ResponseEv []]"]
  by (simp_all add: h2_defs)

section \<open>The claims\<close>





text \<open>
  Claim C3. On the plain path the resolver makes at most two transport calls. With a
  transport object the calls are the UDP query alone, or the UDP query and then one TCP
  query with the same bytes; the TCP query is made exactly when UDP answers with a
  message that is marked truncated (\<open>tc\<close>), and then the outcome is the one of the TCP
  query, otherwise the one of the UDP query.
\<close>

theorem plain_path_attempts:
  assumes "emptyArray e resolverUrls"
  shows "length (snd (resolveDnsUpstream e r rq resolverUrls query sched)) \<le> 2 \<and>
         (\<forall>t. transport r = Some t \<longrightarrow>
            (let tc = (case udpquery e t query of
                         Fulfilled (Some a) \<Rightarrow> truncated e a | _ \<Rightarrow> False)
             in snd (resolveDnsUpstream e r rq resolverUrls query sched) =
                  (if tc then [UdpQuery query, TcpQuery query] else [UdpQuery query]) \<and>
                fst (resolveDnsUpstream e r rq resolverUrls query sched) =
                  (if tc then map_outcome respond (tcpquery e t query)
                   else map_outcome respond (udpquery e t query))))"
proof -
  have plain: "resolveDnsUpstream e r rq resolverUrls query sched = plainOldDns e r query"
    using assms by (simp add: resolveDnsUpstream_def)
  show ?thesis
  proof (cases "transport r")
    case None
    then show ?thesis by (simp add: plain plainOldDns_def)
  next
    case (Some t)
    show ?thesis
    proof (cases "udpquery e t query")
      case (Fulfilled ans)
      show ?thesis
      proof (cases ans)
        case None
        then show ?thesis using Some Fulfilled by (simp add: plain plainOldDns_def)
      next
        case (Some a)
        then show ?thesis
          using \<open>transport r = Some t\<close> Fulfilled
          by (cases "tcpquery e t query") (simp_all add: plain plainOldDns_def)
      qed
    next
      case (Rejected x)
      then show ?thesis using Some by (simp add: plain plainOldDns_def)
    next
      case Pending
      then show ?thesis using Some by (simp add: plain plainOldDns_def)
    qed
  qed
qed

text \<open>
  Claim C3 on Node: a truncated UDP answer is followed by one TCP query with the same
  bytes, and an answer that is not truncated is returned as it is.
\<close>

theorem plain_path_attempts_witness:
  "resolveDnsUpstream ex_node ex_node_resolver ex_post (UrlArray []) ex_query [] =
     (Fulfilled respond503, [UdpQuery ex_query, TcpQuery ex_query]) \<and>
   resolveDnsUpstream (ex_node\<lparr>truncated := (\<lambda>a. False)\<rparr>) ex_node_resolver ex_post (UrlArray [])
       ex_query [] =
     (Fulfilled (Response [0, 1, 2, 0]), [UdpQuery ex_query])"
  using plain_path_attempts [of ex_node "UrlArray []" ex_node_resolver ex_post ex_query "[]"]
    plain_path_attempts [of "ex_node\<lparr>truncated := (\<lambda>a. False)\<rparr>" "UrlArray []" ex_node_resolver
      ex_post ex_query "[]"]
  by (simp add: ex_node_resolver_fields ex_defs prod_eq_iff respond_def)

text \<open>
  Claim C4. The selector returns the empty array with a transport object, else the array
  of the one resolver of the request, else on Workers the array of the two preferred
  resolvers. On its last path it returns \<open>envutil.dohResolver()\<close> itself: a string and
  not the array of that one resolver that the path before it (\<open>[preferredByUser]\<close>)
  and the parameter \<open>resolverUrls\<close> of \<open>resolveDnsUpstream\<close> (an \<open>Array\<close>) call for.
  The loop then runs over the characters of the URL, \<open>new URL\<close> throws at the first of
  them, and the resolution fails before any attempt.
\<close>

theorem default_resolver_is_a_string:
  "determineDohResolvers ex_env (constructor ex_env) ex_param =
     UrlString ''https://a.test/dns-query'' \<and>
   determineDohResolvers ex_env (constructor ex_env) ex_param \<noteq>
     UrlArray [''https://a.test/dns-query''] \<and>
   elements (determineDohResolvers ex_env (constructor ex_env) ex_param) =
     [''h'', ''t'', ''t'', ''p'', ''s'', '':'', ''/'', ''/'', ''a'', ''.'', ''t'', ''e'', ''s'',
      ''t'', ''/'', ''d'', ''n'', ''s'', ''-'', ''q'', ''u'', ''e'', ''r'', ''y''] \<and>
   resolveDns ex_env (constructor ex_env) ex_param [] = (Rejected (TypeError ''Invalid URL''), [])"
  by (simp add: determineDohResolvers_def resolveDns_def resolveDnsUpstream_def dispatch.simps
      ex_defs)

text \<open>
  Claim C5. No resolution through \<open>RethinkModule\<close> on a resolver that was new when
  its first request arrived (\<open>hist\<close>: the requests it has served since) calls \<open>doh2\<close>.
  When \<open>lazyInit\<close> succeeds on it, \<open>http2\<close> is set only if the transport is set
  too; with a transport the selector returns the empty array and the plain path runs; and
  without \<open>http2\<close> every attempt of the DoH path goes through \<open>fetch\<close>.
\<close>

theorem doh2_never_invoked:
  "(\<forall>d. Doh2Call d \<notin> set (snd (snd (RethinkModule e (serve e (constructor e) hist) p sched)))) \<and>
   (\<forall>r'. lazyInit e (serve e (constructor e) hist) = (None, r') \<longrightarrow>
      (http2 r' \<noteq> None \<longrightarrow> transport r' \<noteq> None) \<and>
      (transport r' \<noteq> None \<longrightarrow>
         determineDohResolvers e r' p = UrlArray [] \<and>
         resolveDnsUpstream e r' (p_request p) (determineDohResolvers e r' p)
             (requestBodyBuffer p) sched = plainOldDns e r' (requestBodyBuffer p)) \<and>
      (http2 r' = None \<longrightarrow>
         (\<forall>c \<in> set (snd (resolveDnsUpstream e r' rq urls q sched)).
            \<not> emptyArray e urls \<longrightarrow> (\<exists>d. c = FetchCall d))))"
proof (intro conjI allI impI)
  fix d
  let ?r = "serve e (constructor e) hist"
  show "Doh2Call d \<notin> set (snd (snd (RethinkModule e ?r p sched)))"
  proof
    assume "Doh2Call d \<in> set (snd (snd (RethinkModule e ?r p sched)))"
    from RethinkModule_calls [OF this] obtain r' where
      init: "lazyInit e ?r = (None, r')" and
      c: "Doh2Call d \<in> set (snd (resolveDns e r' p sched))"
      by blast
    from resolveDns_calls [OF c] decodeResponse_calls
    have up: "Doh2Call d \<in> set (snd (resolveDnsUpstream e r' (p_request p)
                 (determineDohResolvers e r' p) (requestBodyBuffer p) sched))"
      by fastforce
    have "http2 r' \<noteq> None \<longrightarrow> emptyArray e (determineDohResolvers e r' p)"
      using lazyInit_served [OF init] by (auto simp: determineDohResolvers_def)
    from upstream_calls_no_doh2 [OF this up] show False by blast
  qed
next
  fix r' :: resolver
  assume "lazyInit e (serve e (constructor e) hist) = (None, r')" and "http2 r' \<noteq> None"
  then show "transport r' \<noteq> None" by (rule lazyInit_served)
next
  fix r' :: resolver
  assume "transport r' \<noteq> None"
  then show "determineDohResolvers e r' p = UrlArray []"
    by (rule determineDohResolvers_priority)
next
  fix r' :: resolver
  assume "transport r' \<noteq> None"
  then show "resolveDnsUpstream e r' (p_request p) (determineDohResolvers e r' p)
       (requestBodyBuffer p) sched = plainOldDns e r' (requestBodyBuffer p)"
    by (simp add: determineDohResolvers_def resolveDnsUpstream_def)
next
  fix r' :: resolver
  assume "http2 r' = None"
  then show "\<forall>c \<in> set (snd (resolveDnsUpstream e r' rq urls q sched)).
      \<not> emptyArray e urls \<longrightarrow> (\<exists>d. c = FetchCall d)"
    using fetch_only by blast
qed

text \<open>
  Claim C5 on Node, for the second request of a resolver, and on Workers, for the first.
\<close>

theorem doh2_never_invoked_witness:
  "(\<forall>d. Doh2Call d \<notin> set (snd (snd (RethinkModule ex_node ex_node_resolver ex_param [])))) \<and>
   lazyInit ex_node ex_node_resolver = (None, ex_node_resolver) \<and>
   http2 ex_node_resolver \<noteq> None \<and>
   transport ex_node_resolver \<noteq> None \<and>
   determineDohResolvers ex_node ex_node_resolver ex_param = UrlArray [] \<and>
   lazyInit ex_workers (constructor ex_workers) = (None, constructor ex_workers) \<and>
   http2 (constructor ex_workers) = None \<and>
   (\<exists>d. FetchCall d \<in> set (snd (resolveDnsUpstream ex_workers (constructor ex_workers) ex_post
          (UrlArray [''https://a.test/dns-query'', ''https://b.test/dns-query'']) ex_query [])))"
proof -
  note node = doh2_never_invoked [of ex_node "[(ex_param, [])]" ex_param "[]" ex_post
      "UrlArray []" ex_query, unfolded ex_node_served]
  note workers = doh2_never_invoked [of ex_workers "[]" ex_param "[]" ex_post
      "UrlArray [''https://a.test/dns-query'', ''https://b.test/dns-query'']" ex_query,
      unfolded serve.simps]
  have 1: "\<forall>d. Doh2Call d \<notin> set (snd (snd (RethinkModule ex_node ex_node_resolver ex_param [])))"
    using node by blast
  have 2: "transport ex_node_resolver \<noteq> None \<and>
           determineDohResolvers ex_node ex_node_resolver ex_param = UrlArray []"
    using node ex_node_init_again ex_node_resolver_fields(1) by blast
  have 3: "http2 (constructor ex_workers) = None" by (simp add: constructor_def)
  from ex_workers_upstream obtain c where
    c: "c \<in> set (snd (resolveDnsUpstream ex_workers (constructor ex_workers)
      ex_post (UrlArray [''https://a.test/dns-query'', ''https://b.test/dns-query'']) ex_query []))"
    by blast
  have "\<exists>d. c = FetchCall d"
    using workers ex_workers_init 3 c ex_workers_nonempty by blast
  with c have 4: "\<exists>d. FetchCall d \<in> set (snd (resolveDnsUpstream ex_workers (constructor ex_workers)
      ex_post (UrlArray [''https://a.test/dns-query'', ''https://b.test/dns-query'']) ex_query []))"
    by blast
  from 1 2 3 4 ex_node_init_again ex_node_resolver_fields(1) ex_workers_init show ?thesis by blast
qed

text \<open>
  Claim C6. \<open>decodeResponse\<close> fails with \<open>no upstream result\<close> when there is no
  response; for a response whose status is not a success it fails with the error that
  carries the status and the status text, and the codec is not called; the codec is only
  ever called on the body of a response whose status is a success.
\<close>

theorem decodeResponse_isolation:
  "decodeResponse e None = (Inl (Error ''no upstream result''), []) \<and>
   (\<not> ok resp \<longrightarrow>
      fst (decodeResponse e (Some resp)) =
        Inl (Error (decimal (status resp) @ '' http err: '' @ statusText resp)) \<and>
      (\<forall>b. DecodeCall b \<notin> set (snd (decodeResponse e (Some resp))))) \<and>
   (\<forall>b. DecodeCall b \<in> set (snd (decodeResponse e outcome)) \<longrightarrow>
      (\<exists>r. outcome = Some r \<and> ok r \<and> b = body r))"
proof -
  have missing: "decodeResponse e None = (Inl (Error ''no upstream result''), [])"
    by (simp add: decodeResponse_def)
  have failed: "decodeResponse e (Some r) =
      (Inl (Error (decimal (status r) @ '' http err: '' @ statusText r)), [ReadText])"
    if "\<not> ok r" for r
    using that by (simp add: decodeResponse_def)
  have decoded: "snd (decodeResponse e (Some r)) = [ReadArrayBuffer, DecodeCall (body r)]"
    if "ok r" for r
    using that by (cases "decode e (body r)") (simp_all add: decodeResponse_def Let_def)
  have only: "\<exists>r. outcome = Some r \<and> ok r \<and> b = body r"
    if b: "DecodeCall b \<in> set (snd (decodeResponse e outcome))" for b
  proof (cases outcome)
    case None
    then show ?thesis using b missing by simp
  next
    case (Some r)
    show ?thesis
    proof (cases "ok r")
      case True
      then show ?thesis using b Some decoded [of r] by simp
    next
      case False
      then show ?thesis using b Some failed [of r] by simp
    qed
  qed
  from missing failed only show ?thesis by simp
qed

text \<open>
  Claim C6 on the 503 response of the plain path and on an answer with status 200.
\<close>

theorem decodeResponse_isolation_witness:
  "\<not> ok respond503 \<and>
   decodeResponse ex_env (Some respond503) =
     (Inl (Error ''503 http err: Service Unavailable''), [ReadText]) \<and>
   DecodeCall (body ex_answer) \<in> set (snd (decodeResponse ex_env (Some ex_answer))) \<and>
   ok ex_answer"
  using decodeResponse_isolation [of ex_env respond503 "Some ex_answer"]
  by (simp add: ok_def respond503_def decodeResponse_def decimal.simps ex_defs Response_def
      Let_def)

text \<open>
  Claim C7, as amended. On the DoH path with a method that is neither GET nor POST, no
  attempt is dispatched and the call is rejected. The reason is \<open>get/post requests
  only\<close> when the loop reaches a URL that is not blank (and that URL and the URL of the
  request parse); when every URL is blank the loop skips them all and the race of the
  initial rejected promise alone rejects with its \<open>AggregateError\<close>.
\<close>

theorem method_guard:
  assumes "\<not> emptyArray e resolverUrls"
    and "\<not> isGetRequest e rq" and "\<not> isPostRequest e rq"
  shows "snd (resolveDnsUpstream e r rq resolverUrls query sched) = [] \<and>
         (\<exists>x. fst (resolveDnsUpstream e r rq resolverUrls query sched) = Rejected x) \<and>
         (\<forall>rurl. find (\<lambda>u. \<not> emptyString e u) (elements resolverUrls) = Some rurl \<and>
                 parseURL e (url rq) \<noteq> None \<and> parseURL e rurl \<noteq> None \<longrightarrow>
            fst (resolveDnsUpstream e r rq resolverUrls query sched) =
              Rejected (Error ''get/post requests only'')) \<and>
         ((\<forall>u \<in> set (elements resolverUrls). emptyString e u) \<longrightarrow>
            fst (resolveDnsUpstream e r rq resolverUrls query sched) =
              Rejected (AggregateError [Error ''no upstream'']))"
proof -
  obtain x sent where d: "dispatch e r rq query (elements resolverUrls) [] = (x, sent)"
    by (cases "dispatch e r rq query (elements resolverUrls) []")
  have sent: "sent = []"
    using dispatch_guard_sent [OF assms(2,3), of r query "elements resolverUrls" "[]"] d by simp
  have res: "resolveDnsUpstream e r rq resolverUrls query sched =
    (case x of Some y \<Rightarrow> (Rejected y, []) | None \<Rightarrow> (Rejected (AggregateError [Error ''no upstream'']), []))"
    using assms(1) d sent
    by (simp add: resolveDnsUpstream_def Promise_any_sentinel_only split: option.split)
  have 1: "snd (resolveDnsUpstream e r rq resolverUrls query sched) = []"
    using res by (simp split: option.split)
  have 2: "\<exists>x. fst (resolveDnsUpstream e r rq resolverUrls query sched) = Rejected x"
    using res by (simp split: option.split)
  have 3: "fst (resolveDnsUpstream e r rq resolverUrls query sched) =
              Rejected (Error ''get/post requests only'')"
    if "find (\<lambda>u. \<not> emptyString e u) (elements resolverUrls) = Some rurl \<and>
        parseURL e (url rq) \<noteq> None \<and> parseURL e rurl \<noteq> None" for rurl
    using dispatch_guard_reason [OF assms(2,3), of "elements resolverUrls" rurl r query "[]"] that d res
    by simp
  have 4: "fst (resolveDnsUpstream e r rq resolverUrls query sched) =
              Rejected (AggregateError [Error ''no upstream''])"
    if "\<forall>u \<in> set (elements resolverUrls). emptyString e u"
    using dispatch_all_blank [OF that, of r rq query "[]"] d res by simp
  from 1 2 3 4 show ?thesis by blast
qed

text \<open>
  Claim C7, as amended, for a PUT request and a blank URL followed by a resolver.
\<close>

theorem method_guard_witness:
  "resolveDnsUpstream ex_workers (constructor ex_workers) ex_put
     (UrlArray [[], ''https://b.test/dns-query'']) ex_query [] =
     (Rejected (Error ''get/post requests only''), [])"
  using method_guard [of ex_workers "UrlArray [[], ''https://b.test/dns-query'']" ex_put
      "constructor ex_workers" ex_query "[]"]
  by (simp add: ex_defs prod_eq_iff)

text \<open>
  Claim C7 as stated fails where every resolver URL is blank (the two preferred
  resolvers of an environment that configures none): the method is PUT, and the call is
  rejected with the \<open>AggregateError\<close> of \<open>no upstream\<close>.
\<close>

theorem method_guard_counterexample:
  "\<not> emptyArray ex_workers (UrlArray [[], []]) \<and>
   \<not> isGetRequest ex_workers ex_put \<and> \<not> isPostRequest ex_workers ex_put \<and>
   resolveDnsUpstream ex_workers (constructor ex_workers) ex_put (UrlArray [[], []]) ex_query [] =
     (Rejected (AggregateError [Error ''no upstream'']), []) \<and>
   AggregateError [Error ''no upstream''] \<noteq> Error ''get/post requests only''"
  by (simp add: resolveDnsUpstream_def dispatch.simps ex_defs)

text \<open>
  Claim C8. On the plain path, when the UDP query answers with nothing, or answers with
  a truncated message and the TCP query answers with nothing, the call is fulfilled (it
  does not throw) with the response of \<open>respond503\<close>, whose status is 503.
\<close>

theorem plain_path_unavailable:
  assumes "emptyArray e resolverUrls" and "transport r = Some t"
    and "udpquery e t query = Fulfilled None \<or>
         (\<exists>a. udpquery e t query = Fulfilled (Some a) \<and> truncated e a \<and>
              tcpquery e t query = Fulfilled None)"
  shows "fst (resolveDnsUpstream e r rq resolverUrls query sched) = Fulfilled respond503 \<and>
         status respond503 = 503"
proof -
  have plain: "resolveDnsUpstream e r rq resolverUrls query sched = plainOldDns e r query"
    using assms(1) by (simp add: resolveDnsUpstream_def)
  from assms(3) have "fst (plainOldDns e r query) = Fulfilled respond503"
  proof
    assume "udpquery e t query = Fulfilled None"
    then show ?thesis using assms(2) by (simp add: plainOldDns_def respond_def)
  next
    assume "\<exists>a. udpquery e t query = Fulfilled (Some a) \<and> truncated e a \<and>
                tcpquery e t query = Fulfilled None"
    then show ?thesis using assms(2) by (auto simp: plainOldDns_def respond_def)
  qed
  then show ?thesis by (simp add: plain respond503_def)
qed

text \<open>
  Claim C8 on Node: TCP gives nothing after a truncated UDP answer, and UDP gives
  nothing.
\<close>

theorem plain_path_unavailable_witness:
  "fst (resolveDnsUpstream ex_node ex_node_resolver ex_post (UrlArray []) ex_query []) =
     Fulfilled respond503 \<and>
   fst (resolveDnsUpstream (ex_node\<lparr>udpquery := (\<lambda>t q. Fulfilled None)\<rparr>) ex_node_resolver ex_post
          (UrlArray []) ex_query []) = Fulfilled respond503"
  using plain_path_unavailable [of ex_node "UrlArray []" ex_node_resolver
      "\<lparr>ip = ''1.1.1.1'', tport = 53\<rparr>" ex_query ex_post "[]"]
    plain_path_unavailable [of "ex_node\<lparr>udpquery := (\<lambda>t q. Fulfilled None)\<rparr>" "UrlArray []"
      ex_node_resolver "\<lparr>ip = ''1.1.1.1'', tport = 53\<rparr>" ex_query ex_post "[]"]
  by (simp add: ex_node_resolver_def lazyInit_def ex_defs)

text \<open>
  Claim C9. The session is never closed. \<open>close\<close> is run only by the handler of
  \<open>end\<close>, and there it is handed to \<open>util.safeBox\<close> without its receiver
  (\<open>util.safeBox(c.close)\<close>), so it raises before it closes anything and the exception
  is dropped: an exchange that ends well is fulfilled with the session still open. The
  handlers of \<open>error\<close> only reject the promise: an exchange that fails before the end of
  the stream does not run \<open>close\<close> at all. The first conjunct holds of every exchange;
  the others are an exchange of two chunks that ends, and one whose stream reports an
  error after the first chunk.
\<close>

theorem doh2_session_left_open:
  "\<not> closed (doh2 e r rq evs) \<and>
   settled (doh2 ex_node ex_node_resolver ex_dnsreq
      [ResponseEv [], DataEv [0, 1], DataEv [2], EndEv]) =
     Fulfilled \<lparr>status = 200, statusText = [], res_headers = [], body = [0, 1, 2]\<rparr> \<and>
   ConnClose \<in> set (calls (doh2 ex_node ex_node_resolver ex_dnsreq
      [ResponseEv [], DataEv [0, 1], DataEv [2], EndEv])) \<and>
   settled (doh2 ex_node ex_node_resolver ex_dnsreq
      [ResponseEv [], DataEv [0, 1], StreamErrorEv ''reset'']) = Rejected (Message ''reset'') \<and>
   ConnClose \<notin> set (calls (doh2 ex_node ex_node_resolver ex_dnsreq
      [ResponseEv [], DataEv [0, 1], StreamErrorEv ''reset'']))"
proof -
  have never: "\<not> closed (doh2 e r rq evs)" by (rule doh2_never_closed)
  have run: "ConnClose \<in> set (calls (doh2 ex_node ex_node_resolver ex_dnsreq
      [ResponseEv [], DataEv [0, 1], DataEv [2], EndEv]))"
    by (simp add: ex_doh2_success)
  have none: "ConnClose \<notin> set (calls (doh2 ex_node ex_node_resolver ex_dnsreq
      [ResponseEv [], DataEv [0, 1], StreamErrorEv ''reset'']))"
    by (simp add: ex_doh2_error)
  from never run none ex_doh2_success(1) ex_doh2_error(1) show ?thesis by blast
qed

text \<open>
  Claim C10. When the query is written (\<open>req.end\<close>, the sixth call) the stream has the
  handlers of \<open>response\<close> and \<open>error\<close> and no handler of \<open>data\<close> or \<open>end\<close>: these two
  are registered inside the handler of \<open>response\<close>, so by the response event, after
  the write, and not before it as the comment above \<open>req.end\<close> says.
\<close>

theorem doh2_writes_before_data_end_handlers:
  "calls (doh2 ex_node ex_node_resolver ex_dnsreq []) =
     [Connect ''https://a.test'', ConnOn OnError,
      StreamRequest ''POST'' ''/dns-query''
        [(''content-length'', ''17''), (''accept'', ''application/dns-message''),
         (''content-type'', ''application/dns-message'')],
      StreamOn OnResponse, StreamOn OnError, StreamEnd ex_query] \<and>
   stream_on (doh2 ex_node ex_node_resolver ex_dnsreq []) = [OnResponse, OnError] \<and>
   OnData \<notin> set (stream_on (doh2 ex_node ex_node_resolver ex_dnsreq [])) \<and>
   OnEnd \<notin> set (stream_on (doh2 ex_node ex_node_resolver ex_dnsreq [])) \<and>
   calls (doh2 ex_node ex_node_resolver ex_dnsreq [ResponseEv []]) =
     [Connect ''https://a.test'', ConnOn OnError,
      StreamRequest ''POST'' ''/dns-query''
        [(''content-length'', ''17''), (''accept'', ''application/dns-message''),
         (''content-type'', ''application/dns-message'')],
      StreamOn OnResponse, StreamOn OnError, StreamEnd ex_query,
      StreamOn OnData, StreamOn OnEnd]"
  by (simp add: ex_doh2_write)

end
